theory Spec2Isabelle
  imports Complex_Main
begin

section \<open>Data model of main.py\<close>

text \<open>
  A Python \<open>str\<close> is a sequence of Unicode code points and \<open>len\<close>, which the
  \<open>max_length\<close> and \<open>min_length\<close> constraints use, counts code points. A code point
  is a natural number here; \<open>lit\<close> reads an ASCII literal of the source.
\<close>

type_synonym str = "nat list"

definition lit :: "string \<Rightarrow> str" where
  "lit s = map of_char s"

text \<open>
  A \<open>datetime\<close> is a point in time, counted in microseconds. The \<open>orders.date\<close> column
  is a \<open>String\<close>: the driver writes the timestamp as text and the response model reads
  the text back; the model keeps the timestamp itself.
  A \<open>float\<close> is modelled as a real number: the only operation main.py performs on
  \<open>price\<close> is the comparison \<open>gt=0\<close>.
\<close>

type_synonym datetime = int

record NewUser =
  first_name :: str
  last_name :: str
  email :: str
  password :: str

record User = NewUser +
  id' :: int

record NewProduct =
  name :: str
  description :: str
  price :: real

record Product = NewProduct +
  id' :: int

record NewOrder =
  user_id :: int
  product_id :: int
  date :: datetime
  status :: str

record Order = NewOrder +
  id' :: int

text \<open>The declared constraints: \<open>Field(max_length=...)\<close>, \<open>Field(min_length=6)\<close>, \<open>Field(gt=0)\<close>.
  They are stated on the record scheme, so that they read a \<open>NewUser\<close> and a \<open>User\<close> alike,
  as the subclass inherits the fields.\<close>

definition valid_NewUser :: "'a NewUser_scheme \<Rightarrow> bool" where
  "valid_NewUser u =
     (length (first_name u) \<le> 50 \<and> length (last_name u) \<le> 150 \<and>
      length (email u) \<le> 150 \<and> 6 \<le> length (password u))"

definition valid_NewProduct :: "'a NewProduct_scheme \<Rightarrow> bool" where
  "valid_NewProduct p =
     (length (name p) \<le> 100 \<and> length (description p) \<le> 1000 \<and> 0 < price p)"

text \<open>\<open>NewOrder\<close> declares types and defaults only, no constraint.\<close>

definition valid_NewOrder :: "'a NewOrder_scheme \<Rightarrow> bool" where
  "valid_NewOrder r = True"

text \<open>\<open>{**user.model_dump(), 'id': i}\<close>: the fields of the input with the id attached.\<close>

definition User_of :: "NewUser \<Rightarrow> int \<Rightarrow> User" where
  "User_of u i =
     \<lparr>first_name = first_name u, last_name = last_name u, email = email u,
      password = password u, User.id' = i\<rparr>"

definition Product_of :: "NewProduct \<Rightarrow> int \<Rightarrow> Product" where
  "Product_of p i =
     \<lparr>name = name p, description = description p, price = price p, Product.id' = i\<rparr>"

definition Order_of :: "NewOrder \<Rightarrow> int \<Rightarrow> Order" where
  "Order_of r i =
     \<lparr>user_id = user_id r, product_id = product_id r, date = date r,
      status = status r, Order.id' = i\<rparr>"

section \<open>The store\<close>

text \<open>
  The three tables of \<open>metadata\<close>, each a list of rows in the order the store keeps them.
  A row has the columns of its table, the stored shape of the entity.
\<close>

record database =
  users :: "User list"
  products :: "Product list"
  orders :: "Order list"

definition empty_db :: database where
  "empty_db = \<lparr>users = [], products = [], orders = []\<rparr>"

text \<open>
  \<open>id\<close> is an \<open>Integer\<close> primary key of an SQLite table (\<open>DATABASE_URL\<close>): an insert
  that gives no id receives one more than the largest id in the table, and 1 in an empty
  table.
\<close>

fun next_id :: "int list \<Rightarrow> int" where
  "next_id [] = 1"
| "next_id (i # is) = fold max is i + 1"

text \<open>\<open>table.select()\<close> with \<open>fetch_all\<close>: every row.\<close>

definition fetch_all :: "'r list \<Rightarrow> 'r list" where
  "fetch_all rows = rows"

text \<open>\<open>table.select().where(table.c.id == i)\<close> with \<open>fetch_one\<close>: the first matching row,
  or \<open>None\<close>.\<close>

definition fetch_one :: "('r \<Rightarrow> int) \<Rightarrow> 'r list \<Rightarrow> int \<Rightarrow> 'r option" where
  "fetch_one key rows i = find (\<lambda>r. key r = i) rows"

text \<open>\<open>table.insert().values(...)\<close> with \<open>execute\<close>: the row is added under the id the
  store assigns, and that id is returned.\<close>

definition execute_insert :: "('r \<Rightarrow> int) \<Rightarrow> (int \<Rightarrow> 'r) \<Rightarrow> 'r list \<Rightarrow> 'r list \<times> int" where
  "execute_insert key mk rows =
     (let last_id = next_id (map key rows) in (rows @ [mk last_id], last_id))"

text \<open>\<open>table.update().where(table.c.id == i).values(...)\<close>: every matching row gets the
  new column values and keeps its id.\<close>

definition execute_update :: "('r \<Rightarrow> int) \<Rightarrow> int \<Rightarrow> (int \<Rightarrow> 'r) \<Rightarrow> 'r list \<Rightarrow> 'r list" where
  "execute_update key i mk rows = map (\<lambda>r. if key r = i then mk (key r) else r) rows"

text \<open>\<open>table.delete().where(table.c.id == i)\<close>: every matching row is removed.\<close>

definition execute_delete :: "('r \<Rightarrow> int) \<Rightarrow> int \<Rightarrow> 'r list \<Rightarrow> 'r list" where
  "execute_delete key i rows = filter (\<lambda>r. key r \<noteq> i) rows"

section \<open>Responses\<close>

text \<open>
  What a request ends in: the handler's return value serialised through its
  \<open>response_model\<close> (status 200); a \<open>JSONResponse(content, status)\<close> the handler builds
  itself; the 422 of a request body that fails validation, with one entry per failing
  field; the 500 of a return value that fails its \<open>response_model\<close>.
\<close>

datatype error_type =
    missing
  | wrong_type
  | string_too_long
  | string_too_short
  | greater_than

type_synonym error_detail = "string \<times> error_type"

datatype 'a response =
    OK 'a
  | JSONResponse "(string \<times> string) list" nat
  | Unprocessable "error_detail list"
  | ServerError

definition response_model :: "('a \<Rightarrow> bool) \<Rightarrow> 'a \<Rightarrow> 'a response" where
  "response_model valid x = (if valid x then OK x else ServerError)"

definition response_model_List :: "('a \<Rightarrow> bool) \<Rightarrow> 'a list \<Rightarrow> 'a list response" where
  "response_model_List valid xs = (if list_all valid xs then OK xs else ServerError)"

section \<open>The handlers\<close>

text \<open>
  One definition per handler of main.py, in the order of the source. A handler takes
  the store; one that writes returns the store it leaves, next to its response. The
  field \<open>id\<close> is written \<open>id'\<close>. The path parameters \<open>user_id\<close>, \<open>product_id\<close> and
  \<open>order_id\<close> are written \<open>uid\<close>, \<open>pid\<close> and \<open>oid\<close>, since the first two are also
  fields of \<open>NewOrder\<close>, and the handler \<open>read_order_\<close> is written \<open>read_order'\<close>.
  A handler that returns a row or a dict has it checked against its \<open>response_model\<close>;
  the \<open>JSONResponse\<close> of a missing id and the dict of a delete, which has no
  \<open>response_model\<close>, go out as they are.
\<close>

definition read_all_users :: "database \<Rightarrow> User list response" where
  "read_all_users db = response_model_List valid_NewUser (fetch_all (users db))"

definition read_user :: "database \<Rightarrow> int \<Rightarrow> User response" where
  "read_user db uid =
     (case fetch_one User.id' (users db) uid of
        Some user \<Rightarrow> response_model valid_NewUser user
      | None \<Rightarrow> JSONResponse [(''error'', ''ID not found'')] 404)"

definition read_all_products :: "database \<Rightarrow> Product list response" where
  "read_all_products db = response_model_List valid_NewProduct (fetch_all (products db))"


definition read_all_orders :: "database \<Rightarrow> Order list response" where
  "read_all_orders db = response_model_List valid_NewOrder (fetch_all (orders db))"


definition create_user :: "database \<Rightarrow> NewUser \<Rightarrow> database \<times> User response" where
  "create_user db user =
     (let (rows, last_id) = execute_insert User.id' (User_of user) (users db)
      in (db\<lparr>users := rows\<rparr>, response_model valid_NewUser (User_of user last_id)))"

definition create_product :: "database \<Rightarrow> NewProduct \<Rightarrow> database \<times> Product response" where
  "create_product db product =
     (let (rows, last_id) = execute_insert Product.id' (Product_of product) (products db)
      in (db\<lparr>products := rows\<rparr>, response_model valid_NewProduct (Product_of product last_id)))"

definition create_order :: "database \<Rightarrow> NewOrder \<Rightarrow> database \<times> Order response" where
  "create_order db order =
     (let (rows, last_id) = execute_insert Order.id' (Order_of order) (orders db)
      in (db\<lparr>orders := rows\<rparr>, response_model valid_NewOrder (Order_of order last_id)))"

definition update_user :: "database \<Rightarrow> int \<Rightarrow> NewUser \<Rightarrow> database \<times> User response" where
  "update_user db uid new_user =
     (db\<lparr>users := execute_update User.id' uid (User_of new_user) (users db)\<rparr>,
      response_model valid_NewUser (User_of new_user uid))"

definition update_product :: "database \<Rightarrow> int \<Rightarrow> NewProduct \<Rightarrow> database \<times> Product response" where
  "update_product db pid new_product =
     (db\<lparr>products := execute_update Product.id' pid (Product_of new_product) (products db)\<rparr>,
      response_model valid_NewProduct (Product_of new_product pid))"

definition update_order :: "database \<Rightarrow> int \<Rightarrow> NewOrder \<Rightarrow> database \<times> Order response" where
  "update_order db oid new_order =
     (db\<lparr>orders := execute_update Order.id' oid (Order_of new_order) (orders db)\<rparr>,
      response_model valid_NewOrder (Order_of new_order oid))"

definition delete_user :: "database \<Rightarrow> int \<Rightarrow> database \<times> (string \<times> string) list response" where
  "delete_user db uid =
     (db\<lparr>users := execute_delete User.id' uid (users db)\<rparr>,
      OK [(''message'', ''User deleted'')])"

definition delete_product :: "database \<Rightarrow> int \<Rightarrow> database \<times> (string \<times> string) list response" where
  "delete_product db pid =
     (db\<lparr>products := execute_delete Product.id' pid (products db)\<rparr>,
      OK [(''message'', ''Product deleted'')])"

definition delete_order :: "database \<Rightarrow> int \<Rightarrow> database \<times> (string \<times> string) list response" where
  "delete_order db oid =
     (db\<lparr>orders := execute_delete Order.id' oid (orders db)\<rparr>,
      OK [(''message'', ''Order deleted'')])"

section \<open>Request bodies\<close>

text \<open>
  A handler with a parameter of type \<open>NewUser\<close>, \<open>NewProduct\<close> or \<open>NewOrder\<close> is
  called with the request body validated against that class; a body that fails is
  answered with 422 and the handler does not run. For each declared field the body
  either has no such key (\<open>Missing\<close>), or a value the field's type does not accept
  (\<open>Invalid\<close>), or a value of the field's type (\<open>Given\<close>).
\<close>

datatype 'a field = Missing | Invalid | Given 'a

text \<open>A field without default is required.\<close>

fun required :: "string \<Rightarrow> 'a field \<Rightarrow> error_detail + 'a" where
  "required loc Missing = Inl (loc, missing)"
| "required loc Invalid = Inl (loc, wrong_type)"
| "required loc (Given v) = Inr v"

text \<open>\<open>Field(default=d)\<close>: the default stands in for a missing key.\<close>

fun default :: "'a \<Rightarrow> string \<Rightarrow> 'a field \<Rightarrow> error_detail + 'a" where
  "default d loc Missing = Inr d"
| "default d loc Invalid = Inl (loc, wrong_type)"
| "default d loc (Given v) = Inr v"

definition max_length :: "nat \<Rightarrow> string \<Rightarrow> str field \<Rightarrow> error_detail + str" where
  "max_length n loc f =
     (case required loc f of
        Inl e \<Rightarrow> Inl e
      | Inr s \<Rightarrow> if n < length s then Inl (loc, string_too_long) else Inr s)"

definition min_length :: "nat \<Rightarrow> string \<Rightarrow> str field \<Rightarrow> error_detail + str" where
  "min_length n loc f =
     (case required loc f of
        Inl e \<Rightarrow> Inl e
      | Inr s \<Rightarrow> if length s < n then Inl (loc, string_too_short) else Inr s)"

definition gt :: "real \<Rightarrow> string \<Rightarrow> real field \<Rightarrow> error_detail + real" where
  "gt b loc f =
     (case required loc f of
        Inl e \<Rightarrow> Inl e
      | Inr x \<Rightarrow> if b < x then Inr x else Inl (loc, greater_than))"

fun errors :: "error_detail + 'a \<Rightarrow> error_detail list" where
  "errors (Inl e) = [e]"
| "errors (Inr v) = []"

text \<open>The bodies list their fields in the order of the class declarations.\<close>

type_synonym NewUser_body = "str field \<times> str field \<times> str field \<times> str field"
type_synonym NewProduct_body = "str field \<times> str field \<times> real field"
type_synonym NewOrder_body = "int field \<times> int field \<times> datetime field \<times> str field"

fun validate_NewUser :: "NewUser_body \<Rightarrow> error_detail list + NewUser" where
  "validate_NewUser (fname, lname, mail, pw) =
     (case (max_length 50 ''first_name'' fname, max_length 150 ''last_name'' lname,
            max_length 150 ''email'' mail, min_length 6 ''password'' pw) of
        (Inr a, Inr b, Inr c, Inr d) \<Rightarrow>
          Inr \<lparr>first_name = a, last_name = b, email = c, password = d\<rparr>
      | (ra, rb, rc, rd) \<Rightarrow> Inl (errors ra @ errors rb @ errors rc @ errors rd))"

fun validate_NewProduct :: "NewProduct_body \<Rightarrow> error_detail list + NewProduct" where
  "validate_NewProduct (nm, ds, pr) =
     (case (max_length 100 ''name'' nm, max_length 1000 ''description'' ds,
            gt 0 ''price'' pr) of
        (Inr a, Inr b, Inr c) \<Rightarrow> Inr \<lparr>name = a, description = b, price = c\<rparr>
      | (ra, rb, rc) \<Rightarrow> Inl (errors ra @ errors rb @ errors rc))"

text \<open>
  The class body of \<open>NewOrder\<close> runs once, when the module is executed:
  \<open>Field(default=datetime.now())\<close> calls \<open>datetime.now()\<close> there and then, and the
  field's default is the value that call returned. \<open>main\<close> is the executed module,
  \<open>import_main now\<close> the execution of the module at the time \<open>now\<close>.
\<close>

record main =
  NewOrder_date_default :: datetime

definition import_main :: "datetime \<Rightarrow> main" where
  "import_main now = \<lparr>NewOrder_date_default = now\<rparr>"

fun validate_NewOrder :: "main \<Rightarrow> NewOrder_body \<Rightarrow> error_detail list + NewOrder" where
  "validate_NewOrder m (ui, pr, dt, st) =
     (case (required ''user_id'' ui, required ''product_id'' pr,
            default (NewOrder_date_default m) ''date'' dt,
            default (lit ''created'') ''status'' st) of
        (Inr a, Inr b, Inr c, Inr d) \<Rightarrow>
          Inr \<lparr>user_id = a, product_id = b, date = c, status = d\<rparr>
      | (ra, rb, rc, rd) \<Rightarrow> Inl (errors ra @ errors rb @ errors rc @ errors rd))"

section \<open>The routes with a request body\<close>

definition post_users :: "database \<Rightarrow> NewUser_body \<Rightarrow> database \<times> User response" where
  "post_users db body =
     (case validate_NewUser body of
        Inl errs \<Rightarrow> (db, Unprocessable errs)
      | Inr user \<Rightarrow> create_user db user)"


definition post_orders :: "main \<Rightarrow> database \<Rightarrow> NewOrder_body \<Rightarrow> database \<times> Order response" where
  "post_orders m db body =
     (case validate_NewOrder m body of
        Inl errs \<Rightarrow> (db, Unprocessable errs)
      | Inr order \<Rightarrow> create_order db order)"

definition put_users :: "database \<Rightarrow> int \<Rightarrow> NewUser_body \<Rightarrow> database \<times> User response" where
  "put_users db uid body =
     (case validate_NewUser body of
        Inl errs \<Rightarrow> (db, Unprocessable errs)
      | Inr new_user \<Rightarrow> update_user db uid new_user)"

definition put_products :: "database \<Rightarrow> int \<Rightarrow> NewProduct_body \<Rightarrow> database \<times> Product response" where
  "put_products db pid body =
     (case validate_NewProduct body of
        Inl errs \<Rightarrow> (db, Unprocessable errs)
      | Inr new_product \<Rightarrow> update_product db pid new_product)"

definition put_orders :: "main \<Rightarrow> database \<Rightarrow> int \<Rightarrow> NewOrder_body \<Rightarrow> database \<times> Order response" where
  "put_orders m db oid body =
     (case validate_NewOrder m body of
        Inl errs \<Rightarrow> (db, Unprocessable errs)
      | Inr new_order \<Rightarrow> update_order db oid new_order)"

section \<open>Sample data\<close>

text \<open>Concrete inputs at which the theorems below are instantiated.\<close>

definition ada :: NewUser where
  "ada = \<lparr>first_name = lit ''Ada'', last_name = lit ''Lovelace'',
           email = lit ''ada@example.org'', password = lit ''secret''\<rparr>"

definition widget :: NewProduct where
  "widget = \<lparr>name = lit ''Widget'', description = lit ''A widget'', price = 9.99\<rparr>"

definition first_order :: NewOrder where
  "first_order = \<lparr>user_id = 1, product_id = 1, date = 1000, status = lit ''created''\<rparr>"

definition shop :: database where
  "shop = \<lparr>users = [User_of ada 1], products = [Product_of widget 1],
            orders = [Order_of first_order 1]\<rparr>"

section \<open>Properties of the store\<close>

lemma fold_max_ge: "(a::int) \<le> fold max xs a"
  by (induction xs arbitrary: a) (auto intro: order_trans [OF max.cobounded2])

lemma fold_max_mem: "x \<in> set xs \<Longrightarrow> (x::int) \<le> fold max xs a"
proof (induction xs arbitrary: a)
  case Nil
  then show ?case by simp
next
  case (Cons y ys)
  show ?case
  proof (cases "x = y")
    case True
    have "y \<le> max y a" by simp
    also have "\<dots> \<le> fold max ys (max y a)" by (rule fold_max_ge)
    finally show ?thesis using True by simp
  next
    case False
    with Cons.prems have "x \<in> set ys" by simp
    then show ?thesis using Cons.IH by simp
  qed
qed

text \<open>The id an insert assigns is larger than every id in the table.\<close>

lemma next_id_fresh: "i \<in> set ids \<Longrightarrow> i < next_id ids"
proof (cases ids)
  case Nil
  assume "i \<in> set ids"
  with Nil show ?thesis by simp
next
  case (Cons a as)
  assume "i \<in> set ids"
  with Cons have "i = a \<or> i \<in> set as" by simp
  then have "i \<le> fold max as a"
    using fold_max_ge [of a as] fold_max_mem [of i as a] by auto
  with Cons show ?thesis by simp
qed

lemma find_append_None: "find P xs = None \<Longrightarrow> find P (xs @ ys) = find P ys"
  by (induction xs) (auto split: if_splits)

lemma fetch_one_absent: "i \<notin> key ` set rows \<Longrightarrow> fetch_one key rows i = None"
  by (induction rows) (auto simp: fetch_one_def)

lemma fetch_one_insert:
  assumes "key (mk (next_id (map key rows))) = next_id (map key rows)"
  shows "fetch_one key (fst (execute_insert key mk rows)) (snd (execute_insert key mk rows))
         = Some (mk (next_id (map key rows)))"
proof -
  let ?n = "next_id (map key rows)"
  have "?n \<notin> key ` set rows"
    using next_id_fresh [of ?n "map key rows"] by auto
  then have "find (\<lambda>r. key r = ?n) rows = None"
    using fetch_one_absent [of ?n key rows] by (simp add: fetch_one_def)
  then show ?thesis using assms
    by (simp add: execute_insert_def fetch_one_def Let_def find_append_None)
qed


lemma execute_update_frame:
  "(\<And>j. key (mk j) = j) \<Longrightarrow>
   filter (\<lambda>r. key r \<noteq> i) (execute_update key i mk rows) = filter (\<lambda>r. key r \<noteq> i) rows"
  by (induction rows) (auto simp: execute_update_def)


lemma execute_delete_frame:
  "filter (\<lambda>r. key r \<noteq> i) (execute_delete key i rows) = filter (\<lambda>r. key r \<noteq> i) rows"
  by (simp add: execute_delete_def)

lemma id_User_of [simp]: "User.id' (User_of u i) = i"
  by (simp add: User_of_def)

lemma id_Product_of [simp]: "Product.id' (Product_of p i) = i"
  by (simp add: Product_of_def)

lemma id_Order_of [simp]: "Order.id' (Order_of r i) = i"
  by (simp add: Order_of_def)

lemma valid_User_of [simp]: "valid_NewUser (User_of u i) = valid_NewUser u"
  by (simp add: User_of_def valid_NewUser_def)

lemma valid_Product_of [simp]: "valid_NewProduct (Product_of p i) = valid_NewProduct p"
  by (simp add: Product_of_def valid_NewProduct_def)

lemma valid_ada: "valid_NewUser ada"
  by (simp add: ada_def valid_NewUser_def lit_def)

lemma valid_widget: "valid_NewProduct widget"
  by (simp add: widget_def valid_NewProduct_def lit_def)

section \<open>Create, then get by id\<close>

text \<open>
  Claim C1. For every valid \<open>NewUser\<close> input and every state of the store, the request
  \<open>POST /users/\<close> with that input runs \<open>create_user\<close>, which answers with the input's
  fields and the id the store assigned; \<open>GET /users/{id}\<close> with that id, on the store
  the create left, answers with the same record: the submitted fields plus the assigned id.
\<close>

theorem create_then_read_user:
  assumes "valid_NewUser user"
  shows "let i = next_id (map User.id' (users db));
             body = (Given (first_name user), Given (last_name user),
                     Given (email user), Given (password user))
         in post_users db body = create_user db user \<and>
            snd (create_user db user) = OK (User_of user i) \<and>
            read_user (fst (create_user db user)) i = OK (User_of user i)"
proof -
  let ?i = "next_id (map User.id' (users db))"
  have v: "validate_NewUser (Given (first_name user), Given (last_name user),
             Given (email user), Given (password user)) = Inr user"
    using assms by (simp add: valid_NewUser_def max_length_def min_length_def)
  have c: "create_user db user =
        (db\<lparr>users := users db @ [User_of user ?i]\<rparr>, OK (User_of user ?i))"
    using assms by (simp add: create_user_def execute_insert_def Let_def response_model_def)
  have "fetch_one User.id' (fst (execute_insert User.id' (User_of user) (users db)))
          (snd (execute_insert User.id' (User_of user) (users db))) = Some (User_of user ?i)"
    by (rule fetch_one_insert) simp
  then have f: "fetch_one User.id' (users db @ [User_of user ?i]) ?i = Some (User_of user ?i)"
    by (simp add: execute_insert_def Let_def)
  have r: "read_user (fst (create_user db user)) ?i = OK (User_of user ?i)"
    using assms by (simp add: c read_user_def f response_model_def)
  show ?thesis
    using v c r by (simp add: Let_def post_users_def)
qed

theorem create_then_read_user_witness:
  "valid_NewUser ada \<and>
   snd (create_user shop ada) = OK (User_of ada 2) \<and>
   read_user (fst (create_user shop ada)) 2 = OK (User_of ada 2)"
proof -
  have h: "valid_NewUser ada"
    by (simp add: ada_def valid_NewUser_def lit_def)
  have n: "next_id (map User.id' (users shop)) = 2"
    by (simp add: shop_def)
  show ?thesis
    using h create_then_read_user [OF h, of shop] by (simp add: Let_def n)
qed

section \<open>Get by an id that is not in the store\<close>



section \<open>Replace by an id that is not in the store\<close>



section \<open>Delete by id\<close>


section \<open>Lists after creates\<close>

lemma users_after_creates:
  "list_all valid_NewUser (users db) \<Longrightarrow> list_all valid_NewUser us \<Longrightarrow>
   list_all valid_NewUser (users (fold (\<lambda>u d. fst (create_user d u)) us db)) \<and>
   length (users (fold (\<lambda>u d. fst (create_user d u)) us db)) = length (users db) + length us"
  by (induction us arbitrary: db)
     (simp_all add: create_user_def execute_insert_def Let_def)

lemma products_after_creates:
  "list_all valid_NewProduct (products db) \<Longrightarrow> list_all valid_NewProduct ps \<Longrightarrow>
   list_all valid_NewProduct (products (fold (\<lambda>p d. fst (create_product d p)) ps db)) \<and>
   length (products (fold (\<lambda>p d. fst (create_product d p)) ps db))
     = length (products db) + length ps"
  by (induction ps arbitrary: db)
     (simp_all add: create_product_def execute_insert_def Let_def)

lemma orders_after_creates:
  "length (orders (fold (\<lambda>r d. fst (create_order d r)) rs db)) = length (orders db) + length rs"
  by (induction rs arbitrary: db)
     (simp_all add: create_order_def execute_insert_def Let_def)

lemma list_all_valid_NewOrder: "list_all valid_NewOrder rows"
  by (induction rows) (simp_all add: valid_NewOrder_def)

text \<open>
  Claim C7. For each entity and every list of valid inputs, of any length N: starting
  from the empty store, creating one record per input and then listing answers with
  exactly N records; on the empty store the list is empty, with status 200.
\<close>

theorem list_after_creates:
  "(list_all valid_NewUser us \<longrightarrow>
      (\<exists>rows. read_all_users (fold (\<lambda>u d. fst (create_user d u)) us empty_db) = OK rows \<and>
              length rows = length us)) \<and>
   (list_all valid_NewProduct ps \<longrightarrow>
      (\<exists>rows. read_all_products (fold (\<lambda>p d. fst (create_product d p)) ps empty_db) = OK rows \<and>
              length rows = length ps)) \<and>
   (\<exists>rows. read_all_orders (fold (\<lambda>r d. fst (create_order d r)) rs empty_db) = OK rows \<and>
              length rows = length rs) \<and>
   read_all_users empty_db = OK [] \<and>
   read_all_products empty_db = OK [] \<and>
   read_all_orders empty_db = OK []"
proof (intro conjI impI)
  assume "list_all valid_NewUser us"
  then show "\<exists>rows. read_all_users (fold (\<lambda>u d. fst (create_user d u)) us empty_db) = OK rows \<and>
              length rows = length us"
    using users_after_creates [of empty_db us]
    by (simp add: read_all_users_def response_model_List_def fetch_all_def empty_db_def)
next
  assume "list_all valid_NewProduct ps"
  then show "\<exists>rows. read_all_products (fold (\<lambda>p d. fst (create_product d p)) ps empty_db) = OK rows \<and>
              length rows = length ps"
    using products_after_creates [of empty_db ps]
    by (simp add: read_all_products_def response_model_List_def fetch_all_def empty_db_def)
next
  show "\<exists>rows. read_all_orders (fold (\<lambda>r d. fst (create_order d r)) rs empty_db) = OK rows \<and>
              length rows = length rs"
    using orders_after_creates [of rs empty_db]
    by (simp add: read_all_orders_def response_model_List_def fetch_all_def empty_db_def
        list_all_valid_NewOrder)
qed (simp_all add: read_all_users_def read_all_products_def read_all_orders_def
      response_model_List_def fetch_all_def empty_db_def)

theorem list_after_creates_witness:
  "list_all valid_NewUser [ada, ada, ada] \<and> list_all valid_NewProduct [widget, widget] \<and>
   (\<exists>rows. read_all_users (fold (\<lambda>u d. fst (create_user d u)) [ada, ada, ada] empty_db) = OK rows \<and>
           length rows = 3) \<and>
   (\<exists>rows. read_all_products (fold (\<lambda>p d. fst (create_product d p)) [widget, widget] empty_db)
             = OK rows \<and> length rows = 2)"
proof -
  have h: "list_all valid_NewUser [ada, ada, ada]" "list_all valid_NewProduct [widget, widget]"
    by (simp_all add: valid_ada valid_widget)
  show ?thesis
    using h list_after_creates [of "[ada, ada, ada]" "[widget, widget]" "[]"]
    by (simp add: numeral_3_eq_3 numeral_2_eq_2)
qed

section \<open>Orders do not check their references\<close>


section \<open>Frame of the writes\<close>

text \<open>
  Claim C9. A replace and a delete leave every row whose id differs from the given id
  as it was, in the same order; a create keeps every row and adds one; and every write
  on one table leaves the other two tables unchanged. The reads return no store: they
  change nothing.
\<close>

theorem writes_touch_only_addressed_row:
  "filter (\<lambda>r. User.id' r \<noteq> uid) (users (fst (update_user db uid new_user)))
     = filter (\<lambda>r. User.id' r \<noteq> uid) (users db) \<and>
   filter (\<lambda>r. Product.id' r \<noteq> pid) (products (fst (update_product db pid new_product)))
     = filter (\<lambda>r. Product.id' r \<noteq> pid) (products db) \<and>
   filter (\<lambda>r. Order.id' r \<noteq> oid) (orders (fst (update_order db oid new_order)))
     = filter (\<lambda>r. Order.id' r \<noteq> oid) (orders db) \<and>
   filter (\<lambda>r. User.id' r \<noteq> uid) (users (fst (delete_user db uid)))
     = filter (\<lambda>r. User.id' r \<noteq> uid) (users db) \<and>
   filter (\<lambda>r. Product.id' r \<noteq> pid) (products (fst (delete_product db pid)))
     = filter (\<lambda>r. Product.id' r \<noteq> pid) (products db) \<and>
   filter (\<lambda>r. Order.id' r \<noteq> oid) (orders (fst (delete_order db oid)))
     = filter (\<lambda>r. Order.id' r \<noteq> oid) (orders db) \<and>
   users (fst (create_user db new_user))
     = users db @ [User_of new_user (next_id (map User.id' (users db)))] \<and>
   products (fst (create_product db new_product))
     = products db @ [Product_of new_product (next_id (map Product.id' (products db)))] \<and>
   orders (fst (create_order db new_order))
     = orders db @ [Order_of new_order (next_id (map Order.id' (orders db)))] \<and>
   products (fst (create_user db new_user)) = products db \<and>
   orders (fst (create_user db new_user)) = orders db \<and>
   products (fst (update_user db uid new_user)) = products db \<and>
   orders (fst (update_user db uid new_user)) = orders db \<and>
   products (fst (delete_user db uid)) = products db \<and>
   orders (fst (delete_user db uid)) = orders db \<and>
   users (fst (create_product db new_product)) = users db \<and>
   orders (fst (create_product db new_product)) = orders db \<and>
   users (fst (update_product db pid new_product)) = users db \<and>
   orders (fst (update_product db pid new_product)) = orders db \<and>
   users (fst (delete_product db pid)) = users db \<and>
   orders (fst (delete_product db pid)) = orders db \<and>
   users (fst (create_order db new_order)) = users db \<and>
   products (fst (create_order db new_order)) = products db \<and>
   users (fst (update_order db oid new_order)) = users db \<and>
   products (fst (update_order db oid new_order)) = products db \<and>
   users (fst (delete_order db oid)) = users db \<and>
   products (fst (delete_order db oid)) = products db"
  by (simp add: update_user_def update_product_def update_order_def
      delete_user_def delete_product_def delete_order_def
      create_user_def create_product_def create_order_def
      execute_insert_def Let_def execute_update_frame execute_delete_frame)

section \<open>Responses of replace and delete\<close>

text \<open>
  Claim C10. The response of a replace is the same in any two states of the store, for
  the same id and the same input, be it the handler's argument or the request body of
  the route; the response of a delete is the same in any two states of the store for the
  same id.
\<close>

theorem responses_independent_of_store:
  "snd (update_user db1 uid new_user) = snd (update_user db2 uid new_user) \<and>
   snd (update_product db1 pid new_product) = snd (update_product db2 pid new_product) \<and>
   snd (update_order db1 oid new_order) = snd (update_order db2 oid new_order) \<and>
   snd (put_users db1 uid ubody) = snd (put_users db2 uid ubody) \<and>
   snd (put_products db1 pid pbody) = snd (put_products db2 pid pbody) \<and>
   snd (put_orders m db1 oid obody) = snd (put_orders m db2 oid obody) \<and>
   snd (delete_user db1 uid) = snd (delete_user db2 uid) \<and>
   snd (delete_product db1 pid) = snd (delete_product db2 pid) \<and>
   snd (delete_order db1 oid) = snd (delete_order db2 oid)"
  by (simp add: update_user_def update_product_def update_order_def
      put_users_def put_products_def put_orders_def
      delete_user_def delete_product_def delete_order_def split: sum.split)

section \<open>Bodies that violate a declared constraint\<close>











section \<open>The default date of an order\<close>

text \<open>The route \<open>POST /orders/\<close> on a body that gives neither date nor status.\<close>

lemma post_orders_defaults:
  "post_orders m db (Given u, Given p, Missing, Missing) =
     create_order db \<lparr>user_id = u, product_id = p, date = NewOrder_date_default m,
                      status = lit ''created''\<rparr>"
  by (simp add: post_orders_def)

text \<open>
  Claim C2 says that an order created without a date receives the time at which its
  request is processed, so that two such orders created at different times receive
  different dates. The module is executed at time 1000. Two requests \<open>POST /orders/\<close>
  with the body \<open>{"user_id": 1, "product_id": 1}\<close> follow, one after the other, at any
  later times; no handler reads the clock. Both orders are stored and echoed with the
  date 1000, the time of the import, and with the status \<open>created\<close>.
\<close>

theorem order_default_date_is_import_time:
  "post_orders (import_main 1000) empty_db (Given 1, Given 1, Missing, Missing) =
     (\<lparr>users = [], products = [], orders = [Order_of first_order 1]\<rparr>,
      OK (Order_of first_order 1)) \<and>
   post_orders (import_main 1000)
     \<lparr>users = [], products = [], orders = [Order_of first_order 1]\<rparr>
     (Given 1, Given 1, Missing, Missing) =
     (\<lparr>users = [], products = [], orders = [Order_of first_order 1, Order_of first_order 2]\<rparr>,
      OK (Order_of first_order 2)) \<and>
   date (Order_of first_order 1) = 1000 \<and> date (Order_of first_order 2) = 1000 \<and>
   status (Order_of first_order 1) = lit ''created''"
  by (simp add: post_orders_def import_main_def create_order_def execute_insert_def
      response_model_def valid_NewOrder_def empty_db_def first_order_def Order_of_def)

end
